theory Spec2Isabelle
  imports Complex_Main "HOL-Library.Monad_Syntax"
begin

section \<open>Two-state steam calculator: the state resolver, unit conversion and delta report\<close>

text \<open>
  A shallow embedding of \<^verbatim>\<open>src/ThermoStateCalc_appHW.py\<close>: the class
  \<^verbatim>\<open>thermoState\<close> (\<^verbatim>\<open>computeProperties\<close>, \<^verbatim>\<open>setState\<close>) and, of
  \<^verbatim>\<open>main_window\<close>, the helpers \<^verbatim>\<open>shortProp\<close>, \<^verbatim>\<open>convertValue\<close>,
  \<^verbatim>\<open>makeLabel\<close>, \<^verbatim>\<open>makeDeltaLabel\<close> and the slot \<^verbatim>\<open>calculateProperties\<close>.

  Conventions of the model.
  \<^item> Python floats are idealised as \<^typ>\<open>real\<close>: comparisons and the arithmetic
    expressions are those of the source, rounding and NaN are not modelled.
  \<^item> Python strings are \<^typ>\<open>string\<close>; only ASCII text is modelled.
  \<^item> An attribute that may hold \<^verbatim>\<open>None\<close> is a \<^typ>\<open>real option\<close>.
  \<^item> A method that mutates \<^verbatim>\<open>self\<close> and may raise takes the object and
    returns the raised exception, if any, paired with the object as the raise left it.
  \<^item> The steam table \<^verbatim>\<open>pyXSteam.XSteam\<close> and the constants of
    \<^verbatim>\<open>UnitConversion.UC\<close> are not part of the sources; they are parameters.
  \<^item> The debugging \<^verbatim>\<open>print\<close> of \<^verbatim>\<open>setState\<close> is left out.
\<close>

subsection \<open>Strings: \<^verbatim>\<open>str.lower\<close> and \<^verbatim>\<open>str.strip\<close> on ASCII\<close>

definition lower_char :: "char \<Rightarrow> char" where
  "lower_char c =
     (let n = (of_char c :: nat)
      in if 65 \<le> n \<and> n \<le> 90 then char_of (n + 32) else c)"

definition lower :: "string \<Rightarrow> string" where
  "lower txt = map lower_char txt"

definition isspace :: "char \<Rightarrow> bool" where
  "isspace c =
     (let n = (of_char c :: nat)
      in (9 \<le> n \<and> n \<le> 13) \<or> (28 \<le> n \<and> n \<le> 32))"

definition strip :: "string \<Rightarrow> string" where
  "strip txt = rev (dropWhile isspace (rev (dropWhile isspace txt)))"

subsection \<open>Exceptions\<close>

text \<open>
  One constructor for each \<^verbatim>\<open>raise ValueError(...)\<close> of \<^verbatim>\<open>setState\<close>, carrying
  the values its message formats:
  \<^item> \<open>InvalidPressure p\<close>: "Invalid pressure p bar (must be > 0)."
  \<^item> \<open>PressureAboveLimit p\<close>: "Pressure p bar above XSteam limit (~300)."
  \<^item> \<open>TemperatureBelowZero t\<close>: "Temperature t C below 0 is not supported."
  \<^item> \<open>TemperatureAboveLimit t\<close>: "Temperature t C above 600 might crash XSteam."
  \<^item> \<open>ComboNotImplemented a b\<close>: "Property combo (a, b) not implemented yet."

  \<open>OracleError\<close> stands for whatever a steam-table call raises, \<open>TypeError\<close> for
  arithmetic or formatting on \<^verbatim>\<open>None\<close>.
\<close>

datatype error =
    InvalidPressure real
  | PressureAboveLimit real
  | TemperatureBelowZero real
  | TemperatureAboveLimit real
  | ComboNotImplemented string string
  | OracleError
  | TypeError

fun isValueError :: "error \<Rightarrow> bool" where
  "isValueError OracleError = False"
| "isValueError TypeError = False"
| "isValueError _ = True"

subsection \<open>The steam table\<close>

datatype unit_system = UNIT_SYSTEM_MKS | UNIT_SYSTEM_FLS

text \<open>
  The methods of an \<^verbatim>\<open>XSteam\<close> instance that the program calls. \<open>None\<close> is a
  call that raises.
\<close>

record XSteam =
  tsat_p :: "real \<Rightarrow> real option"
  uL_p :: "real \<Rightarrow> real option"
  uV_p :: "real \<Rightarrow> real option"
  hL_p :: "real \<Rightarrow> real option"
  hV_p :: "real \<Rightarrow> real option"
  sL_p :: "real \<Rightarrow> real option"
  sV_p :: "real \<Rightarrow> real option"
  vL_p :: "real \<Rightarrow> real option"
  vV_p :: "real \<Rightarrow> real option"
  u_pt :: "real \<Rightarrow> real \<Rightarrow> real option"
  h_pt :: "real \<Rightarrow> real \<Rightarrow> real option"
  s_pt :: "real \<Rightarrow> real \<Rightarrow> real option"
  v_pt :: "real \<Rightarrow> real \<Rightarrow> real option"

subsection \<open>\<^verbatim>\<open>class thermoState\<close>\<close>

text \<open>
  The attributes \<^verbatim>\<open>p, t, v, u, h, s, x\<close> are the fields \<open>st_p\<close>, ..., \<open>st_x\<close>.
  The attribute \<^verbatim>\<open>steamTable\<close> holds the unit system its \<^verbatim>\<open>XSteam\<close> instance
  was built with; the instance itself is looked up in the parameter \<open>X\<close> of the methods.
\<close>

record thermoState =
  steamTable :: unit_system
  region :: string
  st_p :: "real option"
  st_t :: "real option"
  st_v :: "real option"
  st_u :: "real option"
  st_h :: "real option"
  st_s :: "real option"
  st_x :: "real option"

definition thermoState_init :: thermoState where
  "thermoState_init =
     \<lparr> steamTable = UNIT_SYSTEM_MKS, region = ''saturated'',
       st_p = None, st_t = None, st_v = None, st_u = None,
       st_h = None, st_s = None, st_x = None \<rparr>"

text \<open>
  The eight saturation lookups of the two-phase branch, in the order of the source; the
  first that raises ends the branch before anything is assigned. In
  \<^verbatim>\<open>computeProperties\<close> a lookup or a product on an attribute that is still
  \<^verbatim>\<open>None\<close> is taken to raise \<^verbatim>\<open>TypeError\<close>; \<^verbatim>\<open>setState\<close> never calls it
  in such a state.
\<close>

definition saturationValues ::
  "XSteam \<Rightarrow> real \<Rightarrow> (real \<times> real \<times> real \<times> real \<times> real \<times> real \<times> real \<times> real) option" where
  "saturationValues tab pv =
     do {
       uf \<leftarrow> uL_p tab pv;
       ug \<leftarrow> uV_p tab pv;
       hf \<leftarrow> hL_p tab pv;
       hg \<leftarrow> hV_p tab pv;
       sf \<leftarrow> sL_p tab pv;
       sg \<leftarrow> sV_p tab pv;
       vf \<leftarrow> vL_p tab pv;
       vg \<leftarrow> vV_p tab pv;
       Some (uf, ug, hf, hg, sf, sg, vf, vg)
     }"

definition computeProperties ::
  "(unit_system \<Rightarrow> XSteam) \<Rightarrow> thermoState \<Rightarrow> error option \<times> thermoState" where
  "computeProperties X st =
     (let tab = X (steamTable st) in
      if region st = ''two-phase'' then
        (case st_p st of
           None \<Rightarrow> (Some TypeError, st)
         | Some pv \<Rightarrow>
          (case saturationValues tab pv of
             None \<Rightarrow> (Some OracleError, st)
           | Some (uf, ug, hf, hg, sf, sg, vf, vg) \<Rightarrow>
            (case st_x st of
               None \<Rightarrow> (Some TypeError, st)
             | Some xv \<Rightarrow>
                (None, st\<lparr> st_u := Some (uf + xv * (ug - uf)),
                           st_h := Some (hf + xv * (hg - hf)),
                           st_s := Some (sf + xv * (sg - sf)),
                           st_v := Some (vf + xv * (vg - vf)) \<rparr>))))
      else
        (case (st_p st, st_t st) of
           (Some pv, Some tv) \<Rightarrow>
            (case u_pt tab pv tv of
               None \<Rightarrow> (Some OracleError, st)
             | Some uu \<Rightarrow>
              (let st1 = st\<lparr> st_u := Some uu \<rparr> in
               case h_pt tab pv tv of
                 None \<Rightarrow> (Some OracleError, st1)
               | Some hh \<Rightarrow>
                (let st2 = st1\<lparr> st_h := Some hh \<rparr> in
                 case s_pt tab pv tv of
                   None \<Rightarrow> (Some OracleError, st2)
                 | Some ss \<Rightarrow>
                  (let st3 = st2\<lparr> st_s := Some ss \<rparr> in
                   case v_pt tab pv tv of
                     None \<Rightarrow> (Some OracleError, st3)
                   | Some vv \<Rightarrow>
                    (let st4 = st3\<lparr> st_v := Some vv \<rparr> in
                     if region st = ''super-heated vapor'' then (None, st4\<lparr> st_x := Some 1 \<rparr>)
                     else if region st = ''sub-cooled liquid'' then (None, st4\<lparr> st_x := Some 0 \<rparr>)
                     else (None, st4))))))
         | _ \<Rightarrow> (Some TypeError, st)))"

definition checkPressure :: "real \<Rightarrow> error option" where
  "checkPressure pbar =
     (if pbar \<le> 0 then Some (InvalidPressure pbar)
      else if pbar > 300 then Some (PressureAboveLimit pbar)
      else None)"

definition checkTemperature :: "real \<Rightarrow> error option" where
  "checkTemperature tC =
     (if tC < 0 then Some (TemperatureBelowZero tC)
      else if tC > 600 then Some (TemperatureAboveLimit tC)
      else None)"

text \<open>
  \<^verbatim>\<open>setState\<close>, in three definitions: the body of the block for the pair
  \<^verbatim>\<open>p\<close>, \<^verbatim>\<open>t\<close> (from the assignment of \<^verbatim>\<open>self.p\<close> and \<^verbatim>\<open>self.t\<close> to its
  \<^verbatim>\<open>return\<close>), the body of the block for the pair \<^verbatim>\<open>p\<close>, \<^verbatim>\<open>x\<close>, and the
  method itself, which builds the steam table, normalises the two property names and
  selects the block.
\<close>

definition setState_pt ::
  "(unit_system \<Rightarrow> XSteam) \<Rightarrow> real \<Rightarrow> real \<Rightarrow> thermoState \<Rightarrow> error option \<times> thermoState" where
  "setState_pt X pv tv st0 =
     (let st1 = st0\<lparr> st_p := Some pv, st_t := Some tv \<rparr> in
      case checkPressure pv of
        Some ex \<Rightarrow> (Some ex, st1)
      | None \<Rightarrow>
       (case checkTemperature tv of
          Some ex \<Rightarrow> (Some ex, st1)
        | None \<Rightarrow>
         (case tsat_p (X (steamTable st1)) pv of
            None \<Rightarrow> (Some OracleError, st1)
          | Some tsat \<Rightarrow>
             computeProperties X
               (if \<bar>tv - tsat\<bar> < 0.0001 then st1\<lparr> region := ''two-phase'', st_x := Some 0.5 \<rparr>
                else if tv > tsat then st1\<lparr> region := ''super-heated vapor'' \<rparr>
                else st1\<lparr> region := ''sub-cooled liquid'' \<rparr>))))"

definition setState_px ::
  "(unit_system \<Rightarrow> XSteam) \<Rightarrow> real \<Rightarrow> real \<Rightarrow> thermoState \<Rightarrow> error option \<times> thermoState" where
  "setState_px X pv xv st0 =
     (let st1 = st0\<lparr> st_p := Some pv, st_x := Some xv \<rparr> in
      case checkPressure pv of
        Some ex \<Rightarrow> (Some ex, st1)
      | None \<Rightarrow>
       (let xv1 = (if xv < 0 then 0 else xv);
            xv2 = (if xv1 > 1 then 1 else xv1);
            st2 = st1\<lparr> st_x := Some xv2, region := ''two-phase'' \<rparr>
        in
        case tsat_p (X (steamTable st2)) pv of
          None \<Rightarrow> (Some OracleError, st2)
        | Some tsat \<Rightarrow>
         (let st3 = st2\<lparr> st_t := Some tsat \<rparr> in
          case checkTemperature tsat of
            Some ex \<Rightarrow> (Some ex, st3)
          | None \<Rightarrow> computeProperties X st3)))"

definition setState ::
  "(unit_system \<Rightarrow> XSteam) \<Rightarrow> string \<Rightarrow> string \<Rightarrow> real \<Rightarrow> real \<Rightarrow> bool \<Rightarrow> thermoState
     \<Rightarrow> error option \<times> thermoState" where
  "setState X prop1 prop2 val1 val2 SI st =
     (let st0 = st\<lparr> steamTable := (if SI then UNIT_SYSTEM_MKS else UNIT_SYSTEM_FLS) \<rparr>;
          prop1 = strip (lower prop1);
          prop2 = strip (lower prop2)
      in
      if ''p'' \<in> set [prop1, prop2] \<and> ''t'' \<in> set [prop1, prop2] then
        (if prop1 = ''p'' then setState_pt X val1 val2 st0 else setState_pt X val2 val1 st0)
      else if ''p'' \<in> set [prop1, prop2] \<and> ''x'' \<in> set [prop1, prop2] then
        (if prop1 = ''p'' then setState_px X val1 val2 st0 else setState_px X val2 val1 st0)
      else (Some (ComboNotImplemented prop1 prop2), st0))"

subsection \<open>Unit conversion\<close>

text \<open>
  The class \<^verbatim>\<open>UC\<close> of the module \<^verbatim>\<open>UnitConversion\<close> is imported by the program
  and is not among its sources: the factors and the two temperature functions that
  \<^verbatim>\<open>convertValue\<close> reads from it are the fields of a record, supplied as a parameter.
\<close>

record UC =
  bar_to_psi :: real
  psi_to_bar :: real
  C_to_F :: "real \<Rightarrow> real"
  F_to_C :: "real \<Rightarrow> real"
  kJperkg_to_btuperlb :: real
  btuperlb_to_kJperkg :: real
  kJperkgC_to_btuperlbF :: real
  btuperlbF_to_kJperkgC :: real
  m3perkg_to_ft3perlb :: real
  ft3perlb_to_m3perkg :: real

definition convertValue :: "UC \<Rightarrow> real \<Rightarrow> string \<Rightarrow> bool \<Rightarrow> bool \<Rightarrow> real" where
  "convertValue uc val propType oldIsSI newIsSI =
     (if oldIsSI = newIsSI then val
      else if propType = ''p'' then
        (if oldIsSI then val * bar_to_psi uc else val * psi_to_bar uc)
      else if propType = ''t'' then
        (if oldIsSI then C_to_F uc val else F_to_C uc val)
      else if propType \<in> set [''h'', ''u''] then
        (if oldIsSI then val * kJperkg_to_btuperlb uc else val * btuperlb_to_kJperkg uc)
      else if propType = ''s'' then
        (if oldIsSI then val * kJperkgC_to_btuperlbF uc else val * btuperlbF_to_kJperkgC uc)
      else if propType = ''v'' then
        (if oldIsSI then val * m3perkg_to_ft3perlb uc else val * ft3perlb_to_m3perkg uc)
      else if propType = ''x'' then val
      else val)"

subsection \<open>\<^verbatim>\<open>class main_window\<close>: labels and the Calculate slot\<close>

text \<open>
  \<^verbatim>\<open>shortProp\<close>: the text between the first \<^verbatim>\<open>(\<close> and the first \<^verbatim>\<open>)\<close>,
  lower-cased; the slice \<^verbatim>\<open>s[i+1 : j]\<close> is empty when \<open>j \<le> i + 1\<close>.
\<close>

definition index_of :: "char \<Rightarrow> string \<Rightarrow> nat" where
  "index_of c txt = length (takeWhile (\<lambda>d. d \<noteq> c) txt)"

definition shortProp :: "string \<Rightarrow> string" where
  "shortProp cmbText =
     (if CHR ''('' \<in> set cmbText \<and> CHR '')'' \<in> set cmbText then
        lower (take (index_of CHR '')'' cmbText - (index_of CHR ''('' cmbText + 1))
                 (drop (index_of CHR ''('' cmbText + 1) cmbText))
      else [])"

text \<open>
  The items of the four property combo boxes (\<^verbatim>\<open>src/ThermoStateCalcHW.py\<close>) and the
  short names \<^verbatim>\<open>shortProp\<close> extracts from them: the seven property kinds.
\<close>

definition cmbItems :: "string list" where
  "cmbItems =
     [''Pressure (p)'', ''Temperature (T)'', ''Quality (x)'',
      ''Specific Internal Energy (u)'', ''Specific Enthalpy (h)'',
      ''Specific Volume (v)'', ''Specific Entropy (s)'']"

definition propertyKinds :: "string list" where
  "propertyKinds = map shortProp cmbItems"

text \<open>
  A line of a result label, before the number is formatted:
  \<^item> \<open>RegionLine r\<close> is "Region: r";
  \<^item> \<open>PropLine name v units\<close> is "name = v (units)", and "name = v" when
    \<open>units\<close> is empty;
  \<^item> \<open>DeltaLine name v units\<close> is the same line with the name prefixed by the
    Greek capital delta.
\<close>

datatype line =
    RegionLine string
  | PropLine string real string
  | DeltaLine string real string

text \<open>
  The text of the warning label: a fixed text, or one of the two handlers of
  \<^verbatim>\<open>calculateProperties\<close>, "Error: ex" and "Unexpected error: ex".
\<close>

datatype warning =
    Text string
  | ErrorText error
  | UnexpectedErrorText error

record main_window =
  currentUnits :: string
  pUnits :: string
  tUnits :: string
  hUnits :: string
  uUnits :: string
  sUnits :: string
  vUnits :: string
  lblWarning :: warning
  lblResultsS1 :: "line list"
  lblResultsS2 :: "line list"
  lblResultsDelta :: "line list"

definition makeLabel :: "main_window \<Rightarrow> thermoState \<Rightarrow> error + line list" where
  "makeLabel w st =
     (case (st_p st, st_t st, st_u st, st_h st, st_s st, st_v st, st_x st) of
        (Some pv, Some tv, Some uv, Some hv, Some sv, Some vv, Some xv) \<Rightarrow>
          Inr [RegionLine (region st),
               PropLine ''Pressure'' pv (pUnits w),
               PropLine ''Temperature'' tv (tUnits w),
               PropLine ''Internal Energy'' uv (uUnits w),
               PropLine ''Enthalpy'' hv (hUnits w),
               PropLine ''Entropy'' sv (sUnits w),
               PropLine ''Specific Volume'' vv (vUnits w),
               PropLine ''Quality'' xv []]
      | _ \<Rightarrow> Inl TypeError)"

text \<open>Python's \<^verbatim>\<open>a - b\<close> on attributes that may be \<^verbatim>\<open>None\<close>.\<close>

definition minus_attr :: "real option \<Rightarrow> real option \<Rightarrow> real option" where
  "minus_attr a b = (case (a, b) of (Some av, Some bv) \<Rightarrow> Some (av - bv) | _ \<Rightarrow> None)"

definition makeDeltaLabel :: "main_window \<Rightarrow> thermoState \<Rightarrow> thermoState \<Rightarrow> error + line list" where
  "makeDeltaLabel w s1 s2 =
     (case (minus_attr (st_p s2) (st_p s1), minus_attr (st_t s2) (st_t s1),
            minus_attr (st_u s2) (st_u s1), minus_attr (st_h s2) (st_h s1),
            minus_attr (st_s s2) (st_s s1), minus_attr (st_v s2) (st_v s1),
            minus_attr (st_x s2) (st_x s1)) of
        (Some dp, Some dT, Some du, Some dh, Some ds, Some dv, Some dx) \<Rightarrow>
          Inr [DeltaLine ''Pressure'' dp (pUnits w),
               DeltaLine ''Temperature'' dT (tUnits w),
               DeltaLine ''Internal Energy'' du (uUnits w),
               DeltaLine ''Enthalpy'' dh (hUnits w),
               DeltaLine ''Entropy'' ds (sUnits w),
               DeltaLine ''Specific Volume'' dv (vUnits w),
               DeltaLine ''Quality'' dx []]
      | _ \<Rightarrow> Inl TypeError)"

text \<open>The two handlers of the \<^verbatim>\<open>try\<close> block.\<close>

definition handler :: "error \<Rightarrow> warning" where
  "handler ex = (if isValueError ex then ErrorText ex else UnexpectedErrorText ex)"

text \<open>
  \<^verbatim>\<open>calculateProperties\<close>. The texts of the four combo boxes and the numbers
  parsed from the four line edits are arguments; the window is passed and returned.
\<close>

definition calculateProperties ::
  "(unit_system \<Rightarrow> XSteam) \<Rightarrow> string \<Rightarrow> string \<Rightarrow> real \<Rightarrow> real
     \<Rightarrow> string \<Rightarrow> string \<Rightarrow> real \<Rightarrow> real \<Rightarrow> main_window \<Rightarrow> main_window" where
  "calculateProperties X cmbProp1S1 cmbProp2S1 val1S1 val2S1
       cmbProp1S2 cmbProp2S2 val1S2 val2S2 w =
     (let w0 = w\<lparr> lblWarning := Text [] \<rparr>;
          sp1S1 = shortProp cmbProp1S1;
          sp2S1 = shortProp cmbProp2S1;
          sp1S2 = shortProp cmbProp1S2;
          sp2S2 = shortProp cmbProp2S2
      in
      if sp1S1 = sp2S1 then
        w0\<lparr> lblWarning := Text ''State 1: cannot specify the same property twice.'' \<rparr>
      else if sp1S2 = sp2S2 then
        w0\<lparr> lblWarning := Text ''State 2: cannot specify the same property twice.'' \<rparr>
      else
        (let SI = (currentUnits w0 = ''SI'') in
         case setState X sp1S1 sp2S1 val1S1 val2S1 SI thermoState_init of
           (Some ex, _) \<Rightarrow> w0\<lparr> lblWarning := handler ex \<rparr>
         | (None, s1) \<Rightarrow>
          (case setState X sp1S2 sp2S2 val1S2 val2S2 SI thermoState_init of
             (Some ex, _) \<Rightarrow> w0\<lparr> lblWarning := handler ex \<rparr>
           | (None, s2) \<Rightarrow>
            (case makeLabel w0 s1 of
               Inl ex \<Rightarrow> w0\<lparr> lblWarning := handler ex \<rparr>
             | Inr label1 \<Rightarrow>
              (case makeLabel w0 s2 of
                 Inl ex \<Rightarrow> w0\<lparr> lblWarning := handler ex \<rparr>
               | Inr label2 \<Rightarrow>
                (case makeDeltaLabel w0 s1 s2 of
                   Inl ex \<Rightarrow> w0\<lparr> lblWarning := handler ex \<rparr>
                 | Inr labelDelta \<Rightarrow>
                    w0\<lparr> lblResultsS1 := label1,
                        lblResultsS2 := label2,
                        lblResultsDelta := labelDelta \<rparr>))))))"

subsection \<open>Sample collaborators for the concrete instances\<close>

text \<open>
  A small steam table, the same for both unit systems, with round numbers near the
  values of water at 1 bar: saturation at 100 degrees for every pressure up to 250, no
  saturation state above; single-phase properties linear in the temperature.
\<close>

definition sat_lookup :: "real \<Rightarrow> real \<Rightarrow> real option" where
  "sat_lookup val pv = (if pv \<le> 250 then Some val else None)"

definition sampleTable :: XSteam where
  "sampleTable =
     \<lparr> tsat_p = sat_lookup 100,
       uL_p = sat_lookup 417, uV_p = sat_lookup 2506,
       hL_p = sat_lookup 418, hV_p = sat_lookup 2675,
       sL_p = sat_lookup 1, sV_p = sat_lookup 7,
       vL_p = sat_lookup 0, vV_p = sat_lookup 2,
       u_pt = (\<lambda>pv tv. Some (4 * tv)),
       h_pt = (\<lambda>pv tv. Some (4 * tv + pv)),
       s_pt = (\<lambda>pv tv. Some (tv / 100)),
       v_pt = (\<lambda>pv tv. if tv > 100 then Some 2 else Some 0) \<rparr>"

definition sampleXSteam :: "unit_system \<Rightarrow> XSteam" where
  "sampleXSteam us = sampleTable"

definition sampleUC :: UC where
  "sampleUC =
     \<lparr> bar_to_psi = 29 / 2, psi_to_bar = 2 / 29,
       C_to_F = (\<lambda>T. T * 9 / 5 + 32), F_to_C = (\<lambda>T. (T - 32) * 5 / 9),
       kJperkg_to_btuperlb = 3 / 7, btuperlb_to_kJperkg = 7 / 3,
       kJperkgC_to_btuperlbF = 1 / 4, btuperlbF_to_kJperkgC = 4,
       m3perkg_to_ft3perlb = 16, ft3perlb_to_m3perkg = 1 / 16 \<rparr>"

definition sampleWindow :: main_window where
  "sampleWindow =
     \<lparr> currentUnits = ''SI'', pUnits = ''bar'', tUnits = ''C'', hUnits = ''kJ/kg'',
       uUnits = ''kJ/kg'', sUnits = ''kJ/kg*C'', vUnits = ''m^3/kg'',
       lblWarning = Text [], lblResultsS1 = [], lblResultsS2 = [],
       lblResultsDelta = [] \<rparr>"

text \<open>The unit system \<^verbatim>\<open>setState\<close> builds its steam table with.\<close>

abbreviation (input) table_of :: "bool \<Rightarrow> unit_system" where
  "table_of SI \<equiv> (if SI then UNIT_SYSTEM_MKS else UNIT_SYSTEM_FLS)"

section \<open>Properties\<close>

subsection \<open>Property names\<close>

lemma propertyKinds_codes: "propertyKinds = [''p'', ''t'', ''x'', ''u'', ''h'', ''v'', ''s'']"
  by code_simp

lemma normalise_codes:
  "strip (lower ''p'') = ''p''" "strip (lower ''t'') = ''t''" "strip (lower ''x'') = ''x''"
  "strip (lower ''u'') = ''u''" "strip (lower ''h'') = ''h''" "strip (lower ''v'') = ''v''"
  "strip (lower ''s'') = ''s''"
  by code_simp+

lemma normalise_kind: "k \<in> set propertyKinds \<Longrightarrow> strip (lower k) = k"
  unfolding propertyKinds_codes using normalise_codes by auto

subsection \<open>Which block \<^verbatim>\<open>setState\<close> runs\<close>

lemma setState_p_t:
  "setState X ''p'' ''t'' pv tv SI st = setState_pt X pv tv (st\<lparr> steamTable := table_of SI \<rparr>)"
  by (simp add: setState_def normalise_codes)

lemma setState_t_p:
  "setState X ''t'' ''p'' tv pv SI st = setState_pt X pv tv (st\<lparr> steamTable := table_of SI \<rparr>)"
  by (simp add: setState_def normalise_codes)

lemma setState_p_x:
  "setState X ''p'' ''x'' pv xv SI st = setState_px X pv xv (st\<lparr> steamTable := table_of SI \<rparr>)"
  by (simp add: setState_def normalise_codes)

lemma setState_x_p:
  "setState X ''x'' ''p'' xv pv SI st = setState_px X pv xv (st\<lparr> steamTable := table_of SI \<rparr>)"
  by (simp add: setState_def normalise_codes)

subsection \<open>\<^verbatim>\<open>computeProperties\<close> on a prepared state\<close>

lemma saturationValues_Some:
  "saturationValues tab pv = Some (uf, ug, hf, hg, sf, sg, vf, vg) \<longleftrightarrow>
     uL_p tab pv = Some uf \<and> uV_p tab pv = Some ug \<and> hL_p tab pv = Some hf \<and>
     hV_p tab pv = Some hg \<and> sL_p tab pv = Some sf \<and> sV_p tab pv = Some sg \<and>
     vL_p tab pv = Some vf \<and> vV_p tab pv = Some vg"
  by (auto simp add: saturationValues_def Option.bind_eq_Some_conv)

lemma computeProperties_two_phase:
  assumes "region st = ''two-phase''" and "st_p st = Some pv" and "st_x st = Some xv"
    and "saturationValues (X (steamTable st)) pv = Some (uf, ug, hf, hg, sf, sg, vf, vg)"
  shows "computeProperties X st =
           (None, st\<lparr> st_u := Some (uf + xv * (ug - uf)),
                      st_h := Some (hf + xv * (hg - hf)),
                      st_s := Some (sf + xv * (sg - sf)),
                      st_v := Some (vf + xv * (vg - vf)) \<rparr>)"
  using assms by (simp add: computeProperties_def)

lemma computeProperties_single_phase:
  assumes "region st \<noteq> ''two-phase''" and "st_p st = Some pv" and "st_t st = Some tv"
    and "u_pt (X (steamTable st)) pv tv = Some uu" and "h_pt (X (steamTable st)) pv tv = Some hh"
    and "s_pt (X (steamTable st)) pv tv = Some ss" and "v_pt (X (steamTable st)) pv tv = Some vv"
  shows "computeProperties X st =
           (None,
            (if region st = ''super-heated vapor'' then (\<lambda>s. s\<lparr> st_x := Some 1 \<rparr>)
             else if region st = ''sub-cooled liquid'' then (\<lambda>s. s\<lparr> st_x := Some 0 \<rparr>)
             else (\<lambda>s. s))
            (st\<lparr> st_u := Some uu, st_h := Some hh, st_s := Some ss, st_v := Some vv \<rparr>))"
  using assms by (simp add: computeProperties_def)

lemma computeProperties_success_two_phase:
  assumes "computeProperties X st = (None, st')" and "region st' = ''two-phase''"
  shows "\<exists>pv xv uf ug hf hg sf sg vf vg.
           st_p st' = Some pv \<and> st_x st' = Some xv \<and>
           saturationValues (X (steamTable st)) pv = Some (uf, ug, hf, hg, sf, sg, vf, vg) \<and>
           st_u st' = Some (uf + xv * (ug - uf)) \<and> st_h st' = Some (hf + xv * (hg - hf)) \<and>
           st_s st' = Some (sf + xv * (sg - sf)) \<and> st_v st' = Some (vf + xv * (vg - vf))"
proof (cases "region st = ''two-phase''")
  case True
  with assms(1) show ?thesis
    by (auto simp add: computeProperties_def split: option.splits)
next
  case False
  with assms(1) have "region st' = region st"
    by (auto simp add: computeProperties_def Let_def split: option.splits if_splits)
  with False assms(2) show ?thesis by simp
qed

subsection \<open>The outcome of the two blocks\<close>

lemma setState_px_outcome:
  "fst (setState_px X pv xv st0) =
     (case checkPressure pv of
        Some ex \<Rightarrow> Some ex
      | None \<Rightarrow>
         (case tsat_p (X (steamTable st0)) pv of
            None \<Rightarrow> Some OracleError
          | Some tsat \<Rightarrow>
             (case checkTemperature tsat of
                Some ex \<Rightarrow> Some ex
              | None \<Rightarrow>
                 (case saturationValues (X (steamTable st0)) pv of
                    None \<Rightarrow> Some OracleError
                  | Some vals \<Rightarrow> None))))"
  by (auto simp add: setState_px_def computeProperties_def Let_def split: option.splits)

lemma setState_pt_outcome:
  "fst (setState_pt X pv tv st0) =
     (case checkPressure pv of
        Some ex \<Rightarrow> Some ex
      | None \<Rightarrow>
         (case checkTemperature tv of
            Some ex \<Rightarrow> Some ex
          | None \<Rightarrow>
             (case tsat_p (X (steamTable st0)) pv of
                None \<Rightarrow> Some OracleError
              | Some tsat \<Rightarrow>
                 if \<bar>tv - tsat\<bar> < 0.0001 then
                   (case saturationValues (X (steamTable st0)) pv of
                      None \<Rightarrow> Some OracleError
                    | Some vals \<Rightarrow> None)
                 else
                   (case u_pt (X (steamTable st0)) pv tv of
                      None \<Rightarrow> Some OracleError
                    | Some uu \<Rightarrow>
                       (case h_pt (X (steamTable st0)) pv tv of
                          None \<Rightarrow> Some OracleError
                        | Some hh \<Rightarrow>
                           (case s_pt (X (steamTable st0)) pv tv of
                              None \<Rightarrow> Some OracleError
                            | Some ss \<Rightarrow>
                               (case v_pt (X (steamTable st0)) pv tv of
                                  None \<Rightarrow> Some OracleError
                                | Some vv \<Rightarrow> None)))))))"
  by (auto simp add: setState_pt_def computeProperties_def Let_def split: option.splits)

lemma setState_pt_success:
  assumes "setState_pt X pv tv st0 = (None, st')"
  shows "\<exists>st3. computeProperties X st3 = (None, st') \<and> steamTable st3 = steamTable st0"
  using assms unfolding setState_pt_def Let_def
  by (fastforce split: option.splits if_splits)

lemma setState_px_success:
  assumes "setState_px X pv xv st0 = (None, st')"
  shows "\<exists>st3. computeProperties X st3 = (None, st') \<and> steamTable st3 = steamTable st0"
  using assms unfolding setState_px_def Let_def
  by (fastforce split: option.splits if_splits)

lemma setState_success:
  assumes "setState X prop1 prop2 val1 val2 SI st = (None, st')"
  shows "\<exists>st3. computeProperties X st3 = (None, st') \<and> steamTable st3 = table_of SI"
proof -
  let ?st0 = "st\<lparr> steamTable := table_of SI \<rparr>"
  from assms consider pv tv where "setState_pt X pv tv ?st0 = (None, st')"
    | pv xv where "setState_px X pv xv ?st0 = (None, st')"
    unfolding setState_def Let_def by (auto split: if_splits)
  then show ?thesis
  proof cases
    case 1
    from setState_pt_success [OF 1] show ?thesis by simp
  next
    case 2
    from setState_px_success [OF 2] show ?thesis by simp
  qed
qed

subsection \<open>The sample steam table\<close>

lemmas sample_defs = sampleXSteam_def sampleTable_def sat_lookup_def

lemma sample_tsat: "tsat_p (sampleXSteam us) 1 = Some 100"
  by (simp add: sample_defs)

lemma sample_saturationValues:
  "saturationValues (sampleXSteam us) 1 = Some (417, 2506, 418, 2675, 1, 7, 0, 2)"
  by (simp add: saturationValues_def sample_defs)

subsection \<open>Region classification from pressure and temperature\<close>

text \<open>
  Claim C1. For a pressure and a temperature that pass both bounds checks, with \<open>tsat\<close>
  the saturation temperature the steam table returns for the pressure and the steam
  table answering the lookups of the selected branch, \<^verbatim>\<open>setState\<close> returns normally, in
  either order of the two properties, and the region and the quality of the state are:
  two-phase with quality 0.5 when \<open>\<bar>T - tsat\<bar> < 0.0001\<close>; otherwise super-heated
  vapor with quality 1 when \<open>T > tsat\<close>; otherwise sub-cooled liquid with quality 0.
\<close>

theorem setState_pt_classifies_region:
  assumes "checkPressure pv = None" and "checkTemperature tv = None"
    and "tsat_p (X (table_of SI)) pv = Some tsat"
    and "\<bar>tv - tsat\<bar> < 0.0001 \<longrightarrow> saturationValues (X (table_of SI)) pv \<noteq> None"
    and "\<not> \<bar>tv - tsat\<bar> < 0.0001 \<longrightarrow>
           u_pt (X (table_of SI)) pv tv \<noteq> None \<and> h_pt (X (table_of SI)) pv tv \<noteq> None \<and>
           s_pt (X (table_of SI)) pv tv \<noteq> None \<and> v_pt (X (table_of SI)) pv tv \<noteq> None"
  shows "\<exists>st'. setState X ''p'' ''t'' pv tv SI st = (None, st') \<and>
               setState X ''t'' ''p'' tv pv SI st = (None, st') \<and>
               region st' = (if \<bar>tv - tsat\<bar> < 0.0001 then ''two-phase''
                             else if tv > tsat then ''super-heated vapor''
                             else ''sub-cooled liquid'') \<and>
               st_x st' = Some (if \<bar>tv - tsat\<bar> < 0.0001 then 0.5
                                else if tv > tsat then 1 else 0)"
proof (cases "\<bar>tv - tsat\<bar> < 0.0001")
  case True
  with assms(4) obtain uf ug hf hg sf sg vf vg where
    sat: "saturationValues (X (table_of SI)) pv = Some (uf, ug, hf, hg, sf, sg, vf, vg)"
    by (cases "saturationValues (X (table_of SI)) pv") auto
  show ?thesis
    unfolding setState_p_t setState_t_p
    using assms(1-3) True sat
    by (simp add: setState_pt_def computeProperties_two_phase [where pv = pv and xv = "0.5"])
next
  case False
  with assms(5) obtain uu hh ss vv where
    sp: "u_pt (X (table_of SI)) pv tv = Some uu" "h_pt (X (table_of SI)) pv tv = Some hh"
        "s_pt (X (table_of SI)) pv tv = Some ss" "v_pt (X (table_of SI)) pv tv = Some vv"
    by auto
  show ?thesis
    unfolding setState_p_t setState_t_p
    using assms(1-3) False sp
    by (simp add: setState_pt_def computeProperties_single_phase [where pv = pv and tv = tv])
qed

theorem setState_pt_classifies_region_witness:
  "checkPressure 1 = None \<and> checkTemperature 200 = None \<and>
   tsat_p (sampleXSteam UNIT_SYSTEM_MKS) 1 = Some 100 \<and>
   (\<exists>st'. setState sampleXSteam ''p'' ''t'' 1 200 True thermoState_init = (None, st') \<and>
          setState sampleXSteam ''t'' ''p'' 200 1 True thermoState_init = (None, st') \<and>
          region st' = ''super-heated vapor'' \<and> st_x st' = Some 1)"
  using setState_pt_classifies_region [where pv = 1 and tv = 200 and X = sampleXSteam
      and SI = True and tsat = 100 and st = thermoState_init]
  by (simp add: checkPressure_def checkTemperature_def sample_defs)

subsection \<open>Pressure and quality\<close>

text \<open>
  Claim C2. For a pressure \<open>pv\<close> with \<open>0 < pv \<le> 300\<close> and any quality \<open>xv\<close>, also
  outside the interval from 0 to 1: the two orders of the properties give the same
  result, and whether the call fails, and with which exception, does not depend on the
  quality. When the steam table returns the saturation temperature \<open>tsat\<close> for the
  pressure, the call fails with "Temperature ... below 0 is not supported" when
  \<open>tsat < 0\<close> and with "Temperature ... above 600 might crash XSteam" when
  \<open>tsat > 600\<close>; when \<open>0 \<le> tsat \<le> 600\<close> and the steam table answers the saturation
  lookups, the call returns a state with region two-phase, pressure \<open>pv\<close>, temperature
  \<open>tsat\<close> and quality \<open>min 1 (max 0 xv)\<close>, which lies between 0 and 1. The only other
  failures are steam-table calls that raise.
\<close>

theorem setState_px_clamps_quality:
  assumes "0 < pv" and "pv \<le> 300"
  shows "setState X ''x'' ''p'' xv pv SI st = setState X ''p'' ''x'' pv xv SI st \<and>
         fst (setState X ''p'' ''x'' pv xv SI st) = fst (setState X ''p'' ''x'' pv xv' SI st) \<and>
         (tsat_p (X (table_of SI)) pv = None \<longrightarrow>
            fst (setState X ''p'' ''x'' pv xv SI st) = Some OracleError) \<and>
         (tsat_p (X (table_of SI)) pv = Some tsat \<longrightarrow>
            (tsat < 0 \<longrightarrow>
               fst (setState X ''p'' ''x'' pv xv SI st) = Some (TemperatureBelowZero tsat)) \<and>
            (600 < tsat \<longrightarrow>
               fst (setState X ''p'' ''x'' pv xv SI st) = Some (TemperatureAboveLimit tsat)) \<and>
            (0 \<le> tsat \<and> tsat \<le> 600 \<and> saturationValues (X (table_of SI)) pv = None \<longrightarrow>
               fst (setState X ''p'' ''x'' pv xv SI st) = Some OracleError) \<and>
            (0 \<le> tsat \<and> tsat \<le> 600 \<and> saturationValues (X (table_of SI)) pv \<noteq> None \<longrightarrow>
               (\<exists>st'. setState X ''p'' ''x'' pv xv SI st = (None, st') \<and>
                      region st' = ''two-phase'' \<and> st_p st' = Some pv \<and>
                      st_t st' = Some tsat \<and> st_x st' = Some (min 1 (max 0 xv)) \<and>
                      0 \<le> min 1 (max 0 xv) \<and> min 1 (max 0 xv) \<le> 1)))"
proof -
  from assms have cp: "checkPressure pv = None"
    by (simp add: checkPressure_def)
  have order: "setState X ''x'' ''p'' xv pv SI st = setState X ''p'' ''x'' pv xv SI st"
    by (simp add: setState_p_x setState_x_p)
  have indep: "fst (setState X ''p'' ''x'' pv xv SI st) = fst (setState X ''p'' ''x'' pv xv' SI st)"
    unfolding setState_p_x by (simp add: setState_px_outcome)
  have none: "fst (setState X ''p'' ''x'' pv xv SI st) = Some OracleError"
    if "tsat_p (X (table_of SI)) pv = None"
    unfolding setState_p_x using cp that by (simp add: setState_px_outcome)
  have low: "fst (setState X ''p'' ''x'' pv xv SI st) = Some (TemperatureBelowZero tsat)"
    if "tsat_p (X (table_of SI)) pv = Some tsat" and "tsat < 0"
    unfolding setState_p_x using cp that
    by (simp add: setState_px_outcome checkTemperature_def)
  have high: "fst (setState X ''p'' ''x'' pv xv SI st) = Some (TemperatureAboveLimit tsat)"
    if "tsat_p (X (table_of SI)) pv = Some tsat" and "600 < tsat"
    unfolding setState_p_x using cp that
    by (simp add: setState_px_outcome checkTemperature_def)
  have nosat: "fst (setState X ''p'' ''x'' pv xv SI st) = Some OracleError"
    if "tsat_p (X (table_of SI)) pv = Some tsat" and "0 \<le> tsat" and "tsat \<le> 600"
      and "saturationValues (X (table_of SI)) pv = None"
    unfolding setState_p_x using cp that
    by (simp add: setState_px_outcome checkTemperature_def)
  have ok: "\<exists>st'. setState X ''p'' ''x'' pv xv SI st = (None, st') \<and>
                 region st' = ''two-phase'' \<and> st_p st' = Some pv \<and>
                 st_t st' = Some tsat \<and> st_x st' = Some (min 1 (max 0 xv)) \<and>
                 0 \<le> min 1 (max 0 xv) \<and> min 1 (max 0 xv) \<le> 1"
    if ts: "tsat_p (X (table_of SI)) pv = Some tsat" and "0 \<le> tsat" and "tsat \<le> 600"
      and sat: "saturationValues (X (table_of SI)) pv \<noteq> None"
  proof -
    from that have ct: "checkTemperature tsat = None"
      by (simp add: checkTemperature_def)
    from sat obtain uf ug hf hg sf sg vf vg where
      vals: "saturationValues (X (table_of SI)) pv = Some (uf, ug, hf, hg, sf, sg, vf, vg)"
      by (cases "saturationValues (X (table_of SI)) pv") auto
    show ?thesis
      unfolding setState_p_x using cp ts ct vals
      by (simp add: setState_px_def Let_def
          computeProperties_two_phase [where pv = pv and xv = "min 1 (max 0 xv)"]
          min_def max_def)
  qed
  from order indep none low high nosat ok show ?thesis by blast
qed

theorem setState_px_clamps_quality_witness:
  "(0::real) < 1 \<and> (1::real) \<le> 300 \<and>
   setState sampleXSteam ''x'' ''p'' 2 1 True thermoState_init =
     setState sampleXSteam ''p'' ''x'' 1 2 True thermoState_init \<and>
   fst (setState sampleXSteam ''p'' ''x'' 1 2 True thermoState_init) =
     fst (setState sampleXSteam ''p'' ''x'' 1 (1 / 2) True thermoState_init) \<and>
   (\<exists>st'. setState sampleXSteam ''p'' ''x'' 1 2 True thermoState_init = (None, st') \<and>
          region st' = ''two-phase'' \<and> st_p st' = Some 1 \<and> st_t st' = Some 100 \<and>
          st_x st' = Some 1) \<and>
   (\<exists>st'. setState sampleXSteam ''p'' ''x'' 1 (- 1) True thermoState_init = (None, st') \<and>
          region st' = ''two-phase'' \<and> st_t st' = Some 100 \<and> st_x st' = Some 0) \<and>
   fst (setState (\<lambda>us. sampleTable\<lparr> tsat_p := (\<lambda>pv. Some 700) \<rparr>) ''p'' ''x'' 1 2 True
          thermoState_init) = Some (TemperatureAboveLimit 700) \<and>
   fst (setState (\<lambda>us. sampleTable\<lparr> tsat_p := (\<lambda>pv. Some (- 5)) \<rparr>) ''p'' ''x'' 1 2 True
          thermoState_init) = Some (TemperatureBelowZero (- 5))"
  using setState_px_clamps_quality [where pv = 1 and xv = 2 and xv' = "1 / 2"
      and X = sampleXSteam and SI = True and tsat = 100 and st = thermoState_init]
    setState_px_clamps_quality [where pv = 1 and xv = "- 1" and xv' = "1 / 2"
      and X = sampleXSteam and SI = True and tsat = 100 and st = thermoState_init]
    setState_px_clamps_quality [where pv = 1 and xv = 2 and xv' = "1 / 2"
      and X = "\<lambda>us. sampleTable\<lparr> tsat_p := (\<lambda>pv. Some 700) \<rparr>" and SI = True
      and tsat = 700 and st = thermoState_init]
    setState_px_clamps_quality [where pv = 1 and xv = 2 and xv' = "1 / 2"
      and X = "\<lambda>us. sampleTable\<lparr> tsat_p := (\<lambda>pv. Some (- 5)) \<rparr>" and SI = True
      and tsat = "- 5" and st = thermoState_init]
  by (simp add: sample_tsat sample_saturationValues) (elim conjE exE, auto)

subsection \<open>Combinations that are not implemented\<close>

text \<open>
  Claim C6. For two distinct property kinds that are neither pressure with temperature
  nor pressure with quality, in any order, \<^verbatim>\<open>setState\<close> raises the \<^verbatim>\<open>ValueError\<close>
  "Property combo ... not implemented yet" and computes nothing: of the state only
  the steam table attribute is assigned.
\<close>

theorem setState_other_combination_rejected:
  assumes "prop1 \<in> set propertyKinds" and "prop2 \<in> set propertyKinds"
    and "prop1 \<noteq> prop2"
    and "{prop1, prop2} \<noteq> {''p'', ''t''}" and "{prop1, prop2} \<noteq> {''p'', ''x''}"
  shows "setState X prop1 prop2 val1 val2 SI st =
           (Some (ComboNotImplemented prop1 prop2), st\<lparr> steamTable := table_of SI \<rparr>) \<and>
         isValueError (ComboNotImplemented prop1 prop2)"
proof -
  have n1: "strip (lower prop1) = prop1" and n2: "strip (lower prop2) = prop2"
    using assms(1,2) by (simp_all add: normalise_kind)
  have a: "\<not> (''p'' \<in> set [prop1, prop2] \<and> ''t'' \<in> set [prop1, prop2])"
    using assms(3,4) by auto
  have b: "\<not> (''p'' \<in> set [prop1, prop2] \<and> ''x'' \<in> set [prop1, prop2])"
    using assms(3,5) by auto
  have "setState X prop1 prop2 val1 val2 SI st =
           (Some (ComboNotImplemented prop1 prop2), st\<lparr> steamTable := table_of SI \<rparr>)"
    unfolding setState_def Let_def n1 n2 by (simp only: a b if_False)
  then show ?thesis by simp
qed

theorem setState_other_combination_rejected_witness:
  "''t'' \<in> set propertyKinds \<and> ''h'' \<in> set propertyKinds \<and> ''t'' \<noteq> ''h'' \<and>
   {''t'', ''h''} \<noteq> {''p'', ''t''} \<and> {''t'', ''h''} \<noteq> {''p'', ''x''} \<and>
   setState sampleXSteam ''t'' ''h'' 100 2800 True thermoState_init =
     (Some (ComboNotImplemented ''t'' ''h''), thermoState_init)"
  using setState_other_combination_rejected [where ?prop1.0 = "''t''" and ?prop2.0 = "''h''"
      and X = sampleXSteam and ?val1.0 = 100 and ?val2.0 = 2800 and SI = True
      and st = thermoState_init]
  by (simp add: propertyKinds_codes thermoState_init_def doubleton_eq_iff)

subsection \<open>Interpolation in the two-phase region\<close>

text \<open>
  Claim C7. Whenever \<^verbatim>\<open>setState\<close> returns normally with region two-phase, the state
  has a pressure \<open>pv\<close> and a quality \<open>xv\<close>, the steam table of the chosen unit system
  gave the eight saturated-liquid and saturated-vapour values at \<open>pv\<close>, and each of
  \<open>u\<close>, \<open>h\<close>, \<open>s\<close>, \<open>v\<close> is the liquid value plus \<open>xv\<close> times the difference of the
  vapour and the liquid value.
\<close>

theorem two_phase_interpolation:
  assumes "setState X prop1 prop2 val1 val2 SI st = (None, st')"
    and "region st' = ''two-phase''"
  shows "\<exists>pv xv uf ug hf hg sf sg vf vg.
           st_p st' = Some pv \<and> st_x st' = Some xv \<and>
           uL_p (X (table_of SI)) pv = Some uf \<and> uV_p (X (table_of SI)) pv = Some ug \<and>
           hL_p (X (table_of SI)) pv = Some hf \<and> hV_p (X (table_of SI)) pv = Some hg \<and>
           sL_p (X (table_of SI)) pv = Some sf \<and> sV_p (X (table_of SI)) pv = Some sg \<and>
           vL_p (X (table_of SI)) pv = Some vf \<and> vV_p (X (table_of SI)) pv = Some vg \<and>
           st_u st' = Some (uf + xv * (ug - uf)) \<and> st_h st' = Some (hf + xv * (hg - hf)) \<and>
           st_s st' = Some (sf + xv * (sg - sf)) \<and> st_v st' = Some (vf + xv * (vg - vf))"
proof -
  from setState_success [OF assms(1)] obtain st3 where
    st3: "computeProperties X st3 = (None, st')" "steamTable st3 = table_of SI"
    by blast
  from computeProperties_success_two_phase [OF st3(1) assms(2)] st3(2)
  show ?thesis
    unfolding saturationValues_Some by (elim exE conjE) (intro exI conjI; simp)
qed

theorem two_phase_interpolation_witness:
  "setState sampleXSteam ''p'' ''x'' 1 (1 / 4) True thermoState_init =
     (None, \<lparr> steamTable = UNIT_SYSTEM_MKS, region = ''two-phase'',
              st_p = Some 1, st_t = Some 100, st_v = Some (1 / 2),
              st_u = Some (417 + 1 / 4 * (2506 - 417)),
              st_h = Some (418 + 1 / 4 * (2675 - 418)),
              st_s = Some (5 / 2), st_x = Some (1 / 4) \<rparr>) \<and>
   (\<exists>pv xv uf ug hf hg sf sg vf vg.
      Some 1 = Some pv \<and> Some (1 / 4) = Some xv \<and>
      uL_p (sampleXSteam UNIT_SYSTEM_MKS) pv = Some uf \<and>
      uV_p (sampleXSteam UNIT_SYSTEM_MKS) pv = Some ug \<and>
      hL_p (sampleXSteam UNIT_SYSTEM_MKS) pv = Some hf \<and>
      hV_p (sampleXSteam UNIT_SYSTEM_MKS) pv = Some hg \<and>
      sL_p (sampleXSteam UNIT_SYSTEM_MKS) pv = Some sf \<and>
      sV_p (sampleXSteam UNIT_SYSTEM_MKS) pv = Some sg \<and>
      vL_p (sampleXSteam UNIT_SYSTEM_MKS) pv = Some vf \<and>
      vV_p (sampleXSteam UNIT_SYSTEM_MKS) pv = Some vg \<and>
      Some (417 + 1 / 4 * (2506 - 417)) = Some (uf + xv * (ug - uf)) \<and>
      Some (418 + 1 / 4 * (2675 - 418)) = Some (hf + xv * (hg - hf)) \<and>
      Some (5 / 2) = Some (sf + xv * (sg - sf)) \<and>
      Some (1 / 2 :: real) = Some (vf + xv * (vg - vf)))"
proof -
  have run: "setState sampleXSteam ''p'' ''x'' 1 (1 / 4) True thermoState_init =
     (None, \<lparr> steamTable = UNIT_SYSTEM_MKS, region = ''two-phase'',
              st_p = Some 1, st_t = Some 100, st_v = Some (1 / 2),
              st_u = Some (417 + 1 / 4 * (2506 - 417)),
              st_h = Some (418 + 1 / 4 * (2675 - 418)),
              st_s = Some (5 / 2), st_x = Some (1 / 4) \<rparr>)"
    by (simp add: setState_p_x setState_px_def Let_def checkPressure_def checkTemperature_def
        computeProperties_def sample_tsat sample_saturationValues thermoState_init_def)
  from two_phase_interpolation [OF run] run show ?thesis by simp
qed

subsection \<open>Unit conversion\<close>

text \<open>
  Claim C8. \<^verbatim>\<open>convertValue\<close> returns its value unchanged when the old and the new
  unit system are the same, and for the quality \<^verbatim>\<open>x\<close> under every pair of unit
  systems. When the factors of \<^verbatim>\<open>UC\<close> are reciprocal in pairs and its two temperature
  functions are inverse to each other, converting a value and converting the result back
  gives the value again, for every property name. (The function is total: it has no
  failing branch. The numbers are reals, so the round trip is exact.)
\<close>

theorem convertValue_identity_and_round_trip:
  "convertValue uc val k a a = val \<and>
   convertValue uc val ''x'' a b = val \<and>
   (bar_to_psi uc * psi_to_bar uc = 1 \<and>
    (\<forall>T. F_to_C uc (C_to_F uc T) = T) \<and> (\<forall>T. C_to_F uc (F_to_C uc T) = T) \<and>
    kJperkg_to_btuperlb uc * btuperlb_to_kJperkg uc = 1 \<and>
    kJperkgC_to_btuperlbF uc * btuperlbF_to_kJperkgC uc = 1 \<and>
    m3perkg_to_ft3perlb uc * ft3perlb_to_m3perkg uc = 1 \<longrightarrow>
    convertValue uc (convertValue uc val k a b) k b a = val)"
  by (auto simp add: convertValue_def mult.assoc mult.commute)

theorem convertValue_identity_and_round_trip_witness:
  "convertValue sampleUC 10 ''p'' True True = 10 \<and>
   convertValue sampleUC 10 ''x'' True False = 10 \<and>
   bar_to_psi sampleUC * psi_to_bar sampleUC = 1 \<and>
   (\<forall>T. F_to_C sampleUC (C_to_F sampleUC T) = T) \<and>
   (\<forall>T. C_to_F sampleUC (F_to_C sampleUC T) = T) \<and>
   kJperkg_to_btuperlb sampleUC * btuperlb_to_kJperkg sampleUC = 1 \<and>
   kJperkgC_to_btuperlbF sampleUC * btuperlbF_to_kJperkgC sampleUC = 1 \<and>
   m3perkg_to_ft3perlb sampleUC * ft3perlb_to_m3perkg sampleUC = 1 \<and>
   convertValue sampleUC 10 ''p'' True False = 145 \<and>
   convertValue sampleUC (convertValue sampleUC 10 ''p'' True False) ''p'' False True = 10"
  using convertValue_identity_and_round_trip [where uc = sampleUC and val = 10
      and k = "''p''" and a = True and b = False]
  by (simp add: sampleUC_def convertValue_def field_simps)

text \<open>
  Claim C10. For a property name that is none of \<^verbatim>\<open>p\<close>, \<^verbatim>\<open>t\<close>, \<^verbatim>\<open>h\<close>,
  \<^verbatim>\<open>u\<close>, \<^verbatim>\<open>s\<close>, \<^verbatim>\<open>v\<close>, \<^verbatim>\<open>x\<close>, \<^verbatim>\<open>convertValue\<close> returns the value
  unchanged, also when the two unit systems differ; no branch of it raises.
\<close>

theorem convertValue_unknown_name_unchanged:
  "propType \<notin> {''p'', ''t'', ''h'', ''u'', ''s'', ''v'', ''x''} \<Longrightarrow>
     convertValue uc val propType oldIsSI newIsSI = val"
  by (simp add: convertValue_def)

theorem convertValue_unknown_name_unchanged_witness:
  "''q'' \<notin> {''p'', ''t'', ''h'', ''u'', ''s'', ''v'', ''x''} \<and>
   convertValue sampleUC 10 ''q'' True False = 10"
  using convertValue_unknown_name_unchanged [where propType = "''q''" and uc = sampleUC
      and val = 10 and oldIsSI = True and newIsSI = False]
  by simp

subsection \<open>What a successful \<^verbatim>\<open>computeProperties\<close> did\<close>

lemma computeProperties_two_phase_inv:
  assumes "region st = ''two-phase''" and "computeProperties X st = (None, st')"
  shows "\<exists>pv xv uf ug hf hg sf sg vf vg.
           st_p st = Some pv \<and> st_x st = Some xv \<and>
           saturationValues (X (steamTable st)) pv = Some (uf, ug, hf, hg, sf, sg, vf, vg) \<and>
           st' = st\<lparr> st_u := Some (uf + xv * (ug - uf)),
                      st_h := Some (hf + xv * (hg - hf)),
                      st_s := Some (sf + xv * (sg - sf)),
                      st_v := Some (vf + xv * (vg - vf)) \<rparr>"
  using assms by (auto simp add: computeProperties_def split: option.splits)

lemma computeProperties_single_phase_inv:
  assumes "region st \<noteq> ''two-phase''" and "computeProperties X st = (None, st')"
  shows "\<exists>pv tv uu hh ss vv.
           st_p st = Some pv \<and> st_t st = Some tv \<and>
           u_pt (X (steamTable st)) pv tv = Some uu \<and> h_pt (X (steamTable st)) pv tv = Some hh \<and>
           s_pt (X (steamTable st)) pv tv = Some ss \<and> v_pt (X (steamTable st)) pv tv = Some vv \<and>
           st' = (if region st = ''super-heated vapor'' then (\<lambda>s. s\<lparr> st_x := Some 1 \<rparr>)
                  else if region st = ''sub-cooled liquid'' then (\<lambda>s. s\<lparr> st_x := Some 0 \<rparr>)
                  else (\<lambda>s. s))
                 (st\<lparr> st_u := Some uu, st_h := Some hh, st_s := Some ss, st_v := Some vv \<rparr>)"
proof -
  from assms obtain pv where pv: "st_p st = Some pv"
    by (cases "st_p st") (auto simp add: computeProperties_def)
  from assms pv obtain tv where tv: "st_t st = Some tv"
    by (cases "st_t st") (auto simp add: computeProperties_def)
  note pt = pv tv
  from assms pt obtain uu where uu: "u_pt (X (steamTable st)) pv tv = Some uu"
    by (cases "u_pt (X (steamTable st)) pv tv") (auto simp add: computeProperties_def Let_def)
  from assms pt uu obtain hh where hh: "h_pt (X (steamTable st)) pv tv = Some hh"
    by (cases "h_pt (X (steamTable st)) pv tv") (auto simp add: computeProperties_def Let_def)
  from assms pt uu hh obtain ss where ss: "s_pt (X (steamTable st)) pv tv = Some ss"
    by (cases "s_pt (X (steamTable st)) pv tv") (auto simp add: computeProperties_def Let_def)
  from assms pt uu hh ss obtain vv where vv: "v_pt (X (steamTable st)) pv tv = Some vv"
    by (cases "v_pt (X (steamTable st)) pv tv") (auto simp add: computeProperties_def Let_def)
  from computeProperties_single_phase [where X = X, OF assms(1) pt uu hh ss vv] assms(2) pt uu hh ss vv
  show ?thesis by simp
qed

lemma computeProperties_transfer:
  assumes ok: "computeProperties X a = (None, a')"
    and eq: "steamTable b = steamTable a" "region b = region a" "st_p b = st_p a"
      "st_t b = st_t a"
    and x: "region a = ''two-phase'' \<longrightarrow> st_x b = st_x a"
    and r: "region a = ''two-phase'' \<or> region a = ''super-heated vapor'' \<or>
            region a = ''sub-cooled liquid''"
  shows "computeProperties X b = (None, a')"
proof (cases "region a = ''two-phase''")
  case True
  from computeProperties_two_phase_inv [OF True ok] obtain pv xv uf ug hf hg sf sg vf vg where
    a: "st_p a = Some pv" "st_x a = Some xv"
       "saturationValues (X (steamTable a)) pv = Some (uf, ug, hf, hg, sf, sg, vf, vg)"
    and a': "a' = a\<lparr> st_u := Some (uf + xv * (ug - uf)),
                      st_h := Some (hf + xv * (hg - hf)),
                      st_s := Some (sf + xv * (sg - sf)),
                      st_v := Some (vf + xv * (vg - vf)) \<rparr>"
    by blast
  have "computeProperties X b =
          (None, b\<lparr> st_u := Some (uf + xv * (ug - uf)),
                     st_h := Some (hf + xv * (hg - hf)),
                     st_s := Some (sf + xv * (sg - sf)),
                     st_v := Some (vf + xv * (vg - vf)) \<rparr>)"
    using True a eq x by (intro computeProperties_two_phase) simp_all
  moreover have "b\<lparr> st_u := Some (uf + xv * (ug - uf)),
                     st_h := Some (hf + xv * (hg - hf)),
                     st_s := Some (sf + xv * (sg - sf)),
                     st_v := Some (vf + xv * (vg - vf)) \<rparr> = a'"
    unfolding a' using True eq x by (intro thermoState.equality) simp_all
  ultimately show ?thesis by simp
next
  case False
  from computeProperties_single_phase_inv [OF False ok] obtain pv tv uu hh ss vv where
    a: "st_p a = Some pv" "st_t a = Some tv"
       "u_pt (X (steamTable a)) pv tv = Some uu" "h_pt (X (steamTable a)) pv tv = Some hh"
       "s_pt (X (steamTable a)) pv tv = Some ss" "v_pt (X (steamTable a)) pv tv = Some vv"
    and a': "a' = (if region a = ''super-heated vapor'' then (\<lambda>s. s\<lparr> st_x := Some 1 \<rparr>)
                  else if region a = ''sub-cooled liquid'' then (\<lambda>s. s\<lparr> st_x := Some 0 \<rparr>)
                  else (\<lambda>s. s))
                 (a\<lparr> st_u := Some uu, st_h := Some hh, st_s := Some ss, st_v := Some vv \<rparr>)"
    by blast
  have "computeProperties X b =
          (None,
           (if region b = ''super-heated vapor'' then (\<lambda>s. s\<lparr> st_x := Some 1 \<rparr>)
            else if region b = ''sub-cooled liquid'' then (\<lambda>s. s\<lparr> st_x := Some 0 \<rparr>)
            else (\<lambda>s. s))
           (b\<lparr> st_u := Some uu, st_h := Some hh, st_s := Some ss, st_v := Some vv \<rparr>))"
    using False a eq by (intro computeProperties_single_phase) simp_all
  moreover have "(if region b = ''super-heated vapor'' then (\<lambda>s. s\<lparr> st_x := Some 1 \<rparr>)
            else if region b = ''sub-cooled liquid'' then (\<lambda>s. s\<lparr> st_x := Some 0 \<rparr>)
            else (\<lambda>s. s))
           (b\<lparr> st_u := Some uu, st_h := Some hh, st_s := Some ss, st_v := Some vv \<rparr>) = a'"
  proof (cases "region a = ''super-heated vapor''")
    case True
    then show ?thesis unfolding a' using eq by (intro thermoState.equality) simp_all
  next
    case nsh: False
    with False r have "region a = ''sub-cooled liquid''" by simp
    then show ?thesis unfolding a' using eq by (intro thermoState.equality) simp_all
  qed
  ultimately show ?thesis by simp
qed

lemma computeProperties_populates:
  assumes ok: "computeProperties X a = (None, a')"
    and t: "st_t a \<noteq> None"
    and r: "region a = ''two-phase'' \<or> region a = ''super-heated vapor'' \<or>
            region a = ''sub-cooled liquid''"
  shows "st_p a' \<noteq> None \<and> st_t a' \<noteq> None \<and> st_u a' \<noteq> None \<and> st_h a' \<noteq> None \<and>
         st_s a' \<noteq> None \<and> st_v a' \<noteq> None \<and> st_x a' \<noteq> None"
proof (cases "region a = ''two-phase''")
  case True
  from computeProperties_two_phase_inv [OF True ok] t show ?thesis by auto
next
  case False
  from computeProperties_single_phase_inv [OF False ok] False r show ?thesis by auto
qed

subsection \<open>The blocks of \<^verbatim>\<open>setState\<close> and the state they start from\<close>

lemma setState_pt_reduce:
  assumes "checkPressure pv = None" and "checkTemperature tv = None"
    and "tsat_p (X (steamTable a)) pv = Some tsat"
  shows "setState_pt X pv tv a =
           computeProperties X
             (if \<bar>tv - tsat\<bar> < 0.0001
              then a\<lparr> st_p := Some pv, st_t := Some tv, region := ''two-phase'', st_x := Some 0.5 \<rparr>
              else if tv > tsat
              then a\<lparr> st_p := Some pv, st_t := Some tv, region := ''super-heated vapor'' \<rparr>
              else a\<lparr> st_p := Some pv, st_t := Some tv, region := ''sub-cooled liquid'' \<rparr>)"
  using assms by (simp add: setState_pt_def)

lemma setState_px_reduce:
  assumes "checkPressure pv = None" and "tsat_p (X (steamTable a)) pv = Some tsat"
    and "checkTemperature tsat = None"
  shows "setState_px X pv xv a =
           computeProperties X
             (a\<lparr> st_p := Some pv, st_x := Some (min 1 (max 0 xv)), region := ''two-phase'',
                 st_t := Some tsat \<rparr>)"
  using assms by (simp add: setState_px_def Let_def min_def max_def)

lemma setState_pt_checks:
  assumes "fst (setState_pt X pv tv a) = None"
  shows "checkPressure pv = None \<and> checkTemperature tv = None \<and>
         (\<exists>tsat. tsat_p (X (steamTable a)) pv = Some tsat)"
  using assms
  by (cases "checkPressure pv"; cases "checkTemperature tv";
      cases "tsat_p (X (steamTable a)) pv"; simp add: setState_pt_outcome)

lemma setState_px_checks:
  assumes "fst (setState_px X pv xv a) = None"
  shows "checkPressure pv = None \<and>
         (\<exists>tsat. tsat_p (X (steamTable a)) pv = Some tsat \<and> checkTemperature tsat = None)"
  using assms
  by (cases "checkPressure pv"; cases "tsat_p (X (steamTable a)) pv";
      cases "checkTemperature (the (tsat_p (X (steamTable a)) pv))";
      simp add: setState_px_outcome)

lemma setState_pt_state:
  assumes eq: "steamTable b = steamTable a" and ok: "fst (setState_pt X pv tv a) = None"
  shows "setState_pt X pv tv b = setState_pt X pv tv a"
proof -
  from setState_pt_checks [OF ok] obtain tsat where
    c: "checkPressure pv = None" "checkTemperature tv = None"
       "tsat_p (X (steamTable a)) pv = Some tsat"
    by blast
  from c(3) eq have cb: "tsat_p (X (steamTable b)) pv = Some tsat" by simp
  note A = setState_pt_reduce [where X = X and a = a, OF c]
    and B = setState_pt_reduce [where X = X and a = b, OF c(1,2) cb]
  from ok obtain a' where a': "setState_pt X pv tv a = (None, a')"
    by (cases "setState_pt X pv tv a") simp
  have "setState_pt X pv tv b = (None, a')"
    unfolding B by (rule computeProperties_transfer [OF a' [unfolded A]]) (simp_all add: eq)
  with a' show ?thesis by simp
qed

lemma setState_px_state:
  assumes eq: "steamTable b = steamTable a" and ok: "fst (setState_px X pv xv a) = None"
  shows "setState_px X pv xv b = setState_px X pv xv a"
proof -
  from setState_px_checks [OF ok] obtain tsat where
    c: "checkPressure pv = None" "tsat_p (X (steamTable a)) pv = Some tsat"
       "checkTemperature tsat = None"
    by blast
  from c(2) eq have cb: "tsat_p (X (steamTable b)) pv = Some tsat" by simp
  note A = setState_px_reduce [where X = X and a = a, OF c]
    and B = setState_px_reduce [where X = X and a = b, OF c(1) cb c(3)]
  from ok obtain a' where a': "setState_px X pv xv a = (None, a')"
    by (cases "setState_px X pv xv a") simp
  have "setState_px X pv xv b = (None, a')"
    unfolding B by (rule computeProperties_transfer [OF a' [unfolded A]]) (simp_all add: eq)
  with a' show ?thesis by simp
qed

lemma setState_pt_populates:
  assumes "setState_pt X pv tv a = (None, st')"
  shows "st_p st' \<noteq> None \<and> st_t st' \<noteq> None \<and> st_u st' \<noteq> None \<and> st_h st' \<noteq> None \<and>
         st_s st' \<noteq> None \<and> st_v st' \<noteq> None \<and> st_x st' \<noteq> None"
proof -
  from assms have ok: "fst (setState_pt X pv tv a) = None" by simp
  from setState_pt_checks [OF ok] obtain tsat where
    c: "checkPressure pv = None" "checkTemperature tv = None"
       "tsat_p (X (steamTable a)) pv = Some tsat"
    by blast
  show ?thesis
    by (rule computeProperties_populates [OF assms [unfolded setState_pt_reduce [where X = X and a = a, OF c]]])
       simp_all
qed

lemma setState_px_populates:
  assumes "setState_px X pv xv a = (None, st')"
  shows "st_p st' \<noteq> None \<and> st_t st' \<noteq> None \<and> st_u st' \<noteq> None \<and> st_h st' \<noteq> None \<and>
         st_s st' \<noteq> None \<and> st_v st' \<noteq> None \<and> st_x st' \<noteq> None"
proof -
  from assms have ok: "fst (setState_px X pv xv a) = None" by simp
  from setState_px_checks [OF ok] obtain tsat where
    c: "checkPressure pv = None" "tsat_p (X (steamTable a)) pv = Some tsat"
       "checkTemperature tsat = None"
    by blast
  show ?thesis
    by (rule computeProperties_populates [OF assms [unfolded setState_px_reduce [where X = X and a = a, OF c]]])
       simp_all
qed

lemma setState_pt_outcome_indep:
  "steamTable b = steamTable a \<Longrightarrow> fst (setState_pt X pv tv b) = fst (setState_pt X pv tv a)"
  by (simp add: setState_pt_outcome cong: option.case_cong if_cong)

lemma setState_px_outcome_indep:
  "steamTable b = steamTable a \<Longrightarrow> fst (setState_px X pv xv b) = fst (setState_px X pv xv a)"
  by (simp add: setState_px_outcome cong: option.case_cong)

lemma setState_blocks:
  obtains (pt) pv tv where
      "\<And>s. setState X prop1 prop2 val1 val2 SI s =
            setState_pt X pv tv (s\<lparr> steamTable := table_of SI \<rparr>)"
  | (px) pv xv where
      "\<And>s. setState X prop1 prop2 val1 val2 SI s =
            setState_px X pv xv (s\<lparr> steamTable := table_of SI \<rparr>)"
  | (other)
      "\<And>s. setState X prop1 prop2 val1 val2 SI s =
            (Some (ComboNotImplemented (strip (lower prop1)) (strip (lower prop2))),
             s\<lparr> steamTable := table_of SI \<rparr>)"
proof -
  let ?n1 = "strip (lower prop1)" and ?n2 = "strip (lower prop2)"
  let ?PT = "''p'' \<in> set [?n1, ?n2] \<and> ''t'' \<in> set [?n1, ?n2]"
  let ?PX = "''p'' \<in> set [?n1, ?n2] \<and> ''x'' \<in> set [?n1, ?n2]"
  show thesis
  proof (cases ?PT)
    case True
    show thesis
    proof (cases "?n1 = ''p''")
      case p: True
      have "setState X prop1 prop2 val1 val2 SI s =
              setState_pt X val1 val2 (s\<lparr> steamTable := table_of SI \<rparr>)" for s
        unfolding setState_def Let_def by (simp only: if_P [OF True] if_P [OF p])
      then show thesis by (rule pt)
    next
      case p: False
      have "setState X prop1 prop2 val1 val2 SI s =
              setState_pt X val2 val1 (s\<lparr> steamTable := table_of SI \<rparr>)" for s
        unfolding setState_def Let_def by (simp only: if_P [OF True] if_not_P [OF p])
      then show thesis by (rule pt)
    qed
  next
    case False
    show thesis
    proof (cases ?PX)
      case x: True
      show thesis
      proof (cases "?n1 = ''p''")
        case p: True
        have "setState X prop1 prop2 val1 val2 SI s =
                setState_px X val1 val2 (s\<lparr> steamTable := table_of SI \<rparr>)" for s
          unfolding setState_def Let_def
          by (simp only: if_not_P [OF False] if_P [OF x] if_P [OF p])
        then show thesis by (rule px)
      next
        case p: False
        have "setState X prop1 prop2 val1 val2 SI s =
                setState_px X val2 val1 (s\<lparr> steamTable := table_of SI \<rparr>)" for s
          unfolding setState_def Let_def
          by (simp only: if_not_P [OF False] if_P [OF x] if_not_P [OF p])
        then show thesis by (rule px)
      qed
    next
      case x: False
      have "setState X prop1 prop2 val1 val2 SI s =
              (Some (ComboNotImplemented ?n1 ?n2), s\<lparr> steamTable := table_of SI \<rparr>)" for s
        unfolding setState_def Let_def
        by (simp only: if_not_P [OF False] if_not_P [OF x])
      then show thesis by (rule other)
    qed
  qed
qed

lemma setState_outcome_independent:
  "fst (setState X prop1 prop2 val1 val2 SI st0) = fst (setState X prop1 prop2 val1 val2 SI st)"
proof -
  have eq: "steamTable (st0\<lparr> steamTable := table_of SI \<rparr>) =
            steamTable (st\<lparr> steamTable := table_of SI \<rparr>)"
    by simp
  show ?thesis
  proof (cases rule: setState_blocks [of X prop1 prop2 val1 val2 SI])
    case (pt pv tv)
    then show ?thesis by (simp only: setState_pt_outcome_indep [OF eq])
  next
    case (px pv xv)
    then show ?thesis by (simp only: setState_px_outcome_indep [OF eq])
  next
    case other
    then show ?thesis by simp
  qed
qed

lemma setState_state_independent:
  assumes "fst (setState X prop1 prop2 val1 val2 SI st) = None"
  shows "setState X prop1 prop2 val1 val2 SI st0 = setState X prop1 prop2 val1 val2 SI st"
proof -
  have eq: "steamTable (st0\<lparr> steamTable := table_of SI \<rparr>) =
            steamTable (st\<lparr> steamTable := table_of SI \<rparr>)"
    by simp
  show ?thesis
  proof (cases rule: setState_blocks [of X prop1 prop2 val1 val2 SI])
    case (pt pv tv)
    with assms have "fst (setState_pt X pv tv (st\<lparr> steamTable := table_of SI \<rparr>)) = None"
      by simp
    from setState_pt_state [OF eq this] pt show ?thesis by simp
  next
    case (px pv xv)
    with assms have "fst (setState_px X pv xv (st\<lparr> steamTable := table_of SI \<rparr>)) = None"
      by simp
    from setState_px_state [OF eq this] px show ?thesis by simp
  next
    case other
    with assms show ?thesis by simp
  qed
qed

lemma setState_populates:
  assumes "setState X prop1 prop2 val1 val2 SI st = (None, st')"
  shows "st_p st' \<noteq> None \<and> st_t st' \<noteq> None \<and> st_u st' \<noteq> None \<and> st_h st' \<noteq> None \<and>
         st_s st' \<noteq> None \<and> st_v st' \<noteq> None \<and> st_x st' \<noteq> None"
proof (cases rule: setState_blocks [of X prop1 prop2 val1 val2 SI])
  case (pt pv tv)
  with assms have "setState_pt X pv tv (st\<lparr> steamTable := table_of SI \<rparr>) = (None, st')"
    by simp
  then show ?thesis by (rule setState_pt_populates)
next
  case (px pv xv)
  with assms have "setState_px X pv xv (st\<lparr> steamTable := table_of SI \<rparr>) = (None, st')"
    by simp
  then show ?thesis by (rule setState_px_populates)
next
  case other
  with assms show ?thesis by simp
qed

lemma calculateProperties_failure:
  assumes "fst (setState X (shortProp c1) (shortProp c2) v1 v2 (currentUnits w = ''SI'')
                  thermoState_init) \<noteq> None \<or>
           fst (setState X (shortProp c3) (shortProp c4) v3 v4 (currentUnits w = ''SI'')
                  thermoState_init) \<noteq> None"
  shows "lblResultsS1 (calculateProperties X c1 c2 v1 v2 c3 c4 v3 v4 w) = lblResultsS1 w \<and>
         lblResultsS2 (calculateProperties X c1 c2 v1 v2 c3 c4 v3 v4 w) = lblResultsS2 w \<and>
         lblResultsDelta (calculateProperties X c1 c2 v1 v2 c3 c4 v3 v4 w) = lblResultsDelta w \<and>
         lblWarning (calculateProperties X c1 c2 v1 v2 c3 c4 v3 v4 w) \<noteq> Text []"
proof -
  let ?r1 = "setState X (shortProp c1) (shortProp c2) v1 v2 (currentUnits w = ''SI'')
               thermoState_init"
  let ?r2 = "setState X (shortProp c3) (shortProp c4) v3 v4 (currentUnits w = ''SI'')
               thermoState_init"
  show ?thesis
  proof (cases "shortProp c1 = shortProp c2 \<or> shortProp c3 = shortProp c4")
    case True
    then show ?thesis by (auto simp add: calculateProperties_def Let_def)
  next
    case False
    show ?thesis
    proof (cases "fst ?r1")
      case (Some ex)
      then obtain s1 where "?r1 = (Some ex, s1)" by (cases ?r1) simp
      with False show ?thesis
        by (simp add: calculateProperties_def Let_def handler_def)
    next
      case None
      then obtain s1 where r1: "?r1 = (None, s1)" by (cases ?r1) simp
      from None assms obtain ex where "fst ?r2 = Some ex" by auto
      then obtain s2 where "?r2 = (Some ex, s2)" by (cases ?r2) simp
      with False r1 show ?thesis
        by (simp add: calculateProperties_def Let_def handler_def)
    qed
  qed
qed

subsection \<open>Runs on the sample steam table\<close>

lemma shortProp_items:
  "shortProp ''Pressure (p)'' = ''p''" "shortProp ''Temperature (T)'' = ''t''"
  "shortProp ''Quality (x)'' = ''x''"
  by code_simp+

lemma sample_run_100:
  "setState sampleXSteam ''p'' ''t'' 1 100 True st =
     (None, \<lparr> steamTable = UNIT_SYSTEM_MKS, region = ''two-phase'',
              st_p = Some 1, st_t = Some 100, st_v = Some 1, st_u = Some (2923 / 2),
              st_h = Some (3093 / 2), st_s = Some 4, st_x = Some (1 / 2) \<rparr>)"
  by (cases st)
     (simp add: setState_p_t setState_pt_def checkPressure_def checkTemperature_def
        computeProperties_def sample_tsat sample_saturationValues)

lemma sample_run_200:
  "setState sampleXSteam ''p'' ''t'' 1 200 True st =
     (None, \<lparr> steamTable = UNIT_SYSTEM_MKS, region = ''super-heated vapor'',
              st_p = Some 1, st_t = Some 200, st_v = Some 2, st_u = Some 800,
              st_h = Some 801, st_s = Some 2, st_x = Some 1 \<rparr>)"
  by (cases st)
     (simp add: setState_p_t setState_pt_def checkPressure_def checkTemperature_def
        computeProperties_def sample_tsat, simp add: sample_defs)

lemma sample_run_negative:
  "setState sampleXSteam ''p'' ''t'' (- 1) 50 True thermoState_init =
     (Some (InvalidPressure (- 1)), thermoState_init\<lparr> st_p := Some (- 1), st_t := Some 50 \<rparr>)"
  by (simp add: setState_p_t setState_pt_def checkPressure_def thermoState_init_def)

subsection \<open>The pressure bound in English units\<close>

text \<open>
  Claim C3. The claim has the pressure checked against 300 bar, expressed in the unit
  system of the caller. \<^verbatim>\<open>checkPressure\<close> compares the number it is given with
  300 whatever the unit system is: with \<^verbatim>\<open>SI=False\<close> a pressure of 1000 psi, which is
  about 68.9 bar (1 psi is 0.0689476 bar) and so inside the interval of the claim, is
  rejected with "Pressure ... above XSteam limit", while the same pressure given in bar
  passes the check. On the numbers themselves the check is the one of the claim: 300
  passes, 0 and 300.0001 are rejected.
\<close>

theorem setState_english_pressure_rejected:
  "fst (setState X ''p'' ''t'' 1000 500 False st) = Some (PressureAboveLimit 1000) \<and>
   checkPressure (1000 * 0.0689476) = None \<and>
   checkPressure 300 = None \<and>
   checkPressure 0 = Some (InvalidPressure 0) \<and>
   checkPressure 300.0001 = Some (PressureAboveLimit 300.0001)"
  by (simp add: setState_p_t setState_pt_outcome checkPressure_def)

subsection \<open>What a failed call leaves behind\<close>

text \<open>
  Claim C4, as stated, fails: \<^verbatim>\<open>setState\<close> assigns \<^verbatim>\<open>self.p\<close> and
  \<^verbatim>\<open>self.t\<close> before it validates them, so a call rejected by the pressure check
  leaves a state object that differs from the one it was given, holding the rejected
  pressure and temperature and none of the derived properties.
\<close>

theorem setState_failure_keeps_inputs:
  "setState sampleXSteam ''p'' ''t'' (- 1) 50 True thermoState_init =
     (Some (InvalidPressure (- 1)), thermoState_init\<lparr> st_p := Some (- 1), st_t := Some 50 \<rparr>) \<and>
   thermoState_init\<lparr> st_p := Some (- 1), st_t := Some 50 \<rparr> \<noteq> thermoState_init \<and>
   st_p (thermoState_init\<lparr> st_p := Some (- 1), st_t := Some 50 \<rparr>) = Some (- 1) \<and>
   st_u (thermoState_init\<lparr> st_p := Some (- 1), st_t := Some 50 \<rparr>) = None"
  by (simp add: sample_run_negative) (simp add: thermoState_init_def)

text \<open>
  Claim C4, amended. Whether \<^verbatim>\<open>setState\<close> fails, and with which exception, does not
  depend on what the state object held before the call; a call that returns normally
  returns the same state whatever the object held before, with all seven properties
  assigned. \<^verbatim>\<open>calculateProperties\<close> resolves into fresh state objects, and when
  either resolution fails it sets the warning label and leaves the three result labels
  as they were.
\<close>

theorem setState_outcome_and_labels:
  "fst (setState X prop1 prop2 val1 val2 SI st0) = fst (setState X prop1 prop2 val1 val2 SI st) \<and>
   (fst (setState X prop1 prop2 val1 val2 SI st) = None \<longrightarrow>
      setState X prop1 prop2 val1 val2 SI st0 = setState X prop1 prop2 val1 val2 SI st \<and>
      st_p (snd (setState X prop1 prop2 val1 val2 SI st)) \<noteq> None \<and>
      st_t (snd (setState X prop1 prop2 val1 val2 SI st)) \<noteq> None \<and>
      st_u (snd (setState X prop1 prop2 val1 val2 SI st)) \<noteq> None \<and>
      st_h (snd (setState X prop1 prop2 val1 val2 SI st)) \<noteq> None \<and>
      st_s (snd (setState X prop1 prop2 val1 val2 SI st)) \<noteq> None \<and>
      st_v (snd (setState X prop1 prop2 val1 val2 SI st)) \<noteq> None \<and>
      st_x (snd (setState X prop1 prop2 val1 val2 SI st)) \<noteq> None) \<and>
   (fst (setState X (shortProp c1) (shortProp c2) v1 v2 (currentUnits w = ''SI'')
           thermoState_init) \<noteq> None \<or>
    fst (setState X (shortProp c3) (shortProp c4) v3 v4 (currentUnits w = ''SI'')
           thermoState_init) \<noteq> None \<longrightarrow>
      lblResultsS1 (calculateProperties X c1 c2 v1 v2 c3 c4 v3 v4 w) = lblResultsS1 w \<and>
      lblResultsS2 (calculateProperties X c1 c2 v1 v2 c3 c4 v3 v4 w) = lblResultsS2 w \<and>
      lblResultsDelta (calculateProperties X c1 c2 v1 v2 c3 c4 v3 v4 w) = lblResultsDelta w \<and>
      lblWarning (calculateProperties X c1 c2 v1 v2 c3 c4 v3 v4 w) \<noteq> Text [])"
proof (intro conjI impI)
  show "fst (setState X prop1 prop2 val1 val2 SI st0) = fst (setState X prop1 prop2 val1 val2 SI st)"
    by (rule setState_outcome_independent)
next
  assume ok: "fst (setState X prop1 prop2 val1 val2 SI st) = None"
  then show "setState X prop1 prop2 val1 val2 SI st0 = setState X prop1 prop2 val1 val2 SI st"
    by (rule setState_state_independent)
  from ok have run: "setState X prop1 prop2 val1 val2 SI st =
                       (None, snd (setState X prop1 prop2 val1 val2 SI st))"
    by (metis prod.collapse)
  note pop = setState_populates [OF run]
  from pop show "st_p (snd (setState X prop1 prop2 val1 val2 SI st)) \<noteq> None" by simp
  from pop show "st_t (snd (setState X prop1 prop2 val1 val2 SI st)) \<noteq> None" by simp
  from pop show "st_u (snd (setState X prop1 prop2 val1 val2 SI st)) \<noteq> None" by simp
  from pop show "st_h (snd (setState X prop1 prop2 val1 val2 SI st)) \<noteq> None" by simp
  from pop show "st_s (snd (setState X prop1 prop2 val1 val2 SI st)) \<noteq> None" by simp
  from pop show "st_v (snd (setState X prop1 prop2 val1 val2 SI st)) \<noteq> None" by simp
  from pop show "st_x (snd (setState X prop1 prop2 val1 val2 SI st)) \<noteq> None" by simp
next
  assume fail: "fst (setState X (shortProp c1) (shortProp c2) v1 v2 (currentUnits w = ''SI'')
           thermoState_init) \<noteq> None \<or>
    fst (setState X (shortProp c3) (shortProp c4) v3 v4 (currentUnits w = ''SI'')
           thermoState_init) \<noteq> None"
  note keep = calculateProperties_failure [OF fail]
  from keep show "lblResultsS1 (calculateProperties X c1 c2 v1 v2 c3 c4 v3 v4 w) = lblResultsS1 w"
    by simp
  from keep show "lblResultsS2 (calculateProperties X c1 c2 v1 v2 c3 c4 v3 v4 w) = lblResultsS2 w"
    by simp
  from keep show "lblResultsDelta (calculateProperties X c1 c2 v1 v2 c3 c4 v3 v4 w) = lblResultsDelta w"
    by simp
  from keep show "lblWarning (calculateProperties X c1 c2 v1 v2 c3 c4 v3 v4 w) \<noteq> Text []"
    by simp
qed

theorem setState_outcome_and_labels_witness:
  "fst (setState sampleXSteam ''p'' ''t'' 1 200 True
          (thermoState_init\<lparr> st_p := Some (- 1), st_t := Some 50 \<rparr>)) = None \<and>
   setState sampleXSteam ''p'' ''t'' 1 200 True
          (thermoState_init\<lparr> st_p := Some (- 1), st_t := Some 50 \<rparr>) =
     setState sampleXSteam ''p'' ''t'' 1 200 True thermoState_init \<and>
   st_u (snd (setState sampleXSteam ''p'' ''t'' 1 200 True thermoState_init)) \<noteq> None \<and>
   fst (setState sampleXSteam (shortProp ''Pressure (p)'') (shortProp ''Temperature (T)'')
          (- 1) 50 (currentUnits sampleWindow = ''SI'') thermoState_init) \<noteq> None \<and>
   lblResultsS1 (calculateProperties sampleXSteam ''Pressure (p)'' ''Temperature (T)'' (- 1) 50
                   ''Pressure (p)'' ''Temperature (T)'' 1 200 sampleWindow) =
     lblResultsS1 sampleWindow \<and>
   lblResultsDelta (calculateProperties sampleXSteam ''Pressure (p)'' ''Temperature (T)'' (- 1) 50
                   ''Pressure (p)'' ''Temperature (T)'' 1 200 sampleWindow) =
     lblResultsDelta sampleWindow \<and>
   lblWarning (calculateProperties sampleXSteam ''Pressure (p)'' ''Temperature (T)'' (- 1) 50
                   ''Pressure (p)'' ''Temperature (T)'' 1 200 sampleWindow) \<noteq> Text []"
  using setState_outcome_and_labels [where X = sampleXSteam and ?prop1.0 = "''p''" and ?prop2.0 = "''t''"
      and ?val1.0 = 1 and ?val2.0 = 200 and SI = True
      and ?st0.0 = "thermoState_init\<lparr> st_p := Some (- 1), st_t := Some 50 \<rparr>"
      and st = thermoState_init
      and ?c1.0 = "''Pressure (p)''" and ?c2.0 = "''Temperature (T)''" and ?v1.0 = "- 1"
      and ?v2.0 = 50 and ?c3.0 = "''Pressure (p)''" and ?c4.0 = "''Temperature (T)''"
      and ?v3.0 = 1 and ?v4.0 = 200 and w = sampleWindow]
  by (simp add: sample_run_200 sample_run_negative shortProp_items sampleWindow_def)

subsection \<open>The same property twice\<close>

text \<open>
  Claim C5. When the two property names selected for state 1 are the same,
  \<^verbatim>\<open>calculateProperties\<close> only sets the warning "State 1: cannot specify the same
  property twice." and returns, for every steam table: no state is resolved. The same
  holds for state 2 when the names of state 1 differ. \<^verbatim>\<open>setState\<close> itself, called
  with the same name twice, raises the \<^verbatim>\<open>ValueError\<close> "Property combo ... not
  implemented yet".
\<close>

theorem duplicate_property_rejected:
  "(shortProp c1 = shortProp c2 \<longrightarrow>
      calculateProperties X c1 c2 v1 v2 c3 c4 v3 v4 w =
        w\<lparr> lblWarning := Text ''State 1: cannot specify the same property twice.'' \<rparr>) \<and>
   (shortProp c1 \<noteq> shortProp c2 \<and> shortProp c3 = shortProp c4 \<longrightarrow>
      calculateProperties X c1 c2 v1 v2 c3 c4 v3 v4 w =
        w\<lparr> lblWarning := Text ''State 2: cannot specify the same property twice.'' \<rparr>) \<and>
   setState X kind kind val1 val2 SI st =
     (Some (ComboNotImplemented (strip (lower kind)) (strip (lower kind))),
      st\<lparr> steamTable := table_of SI \<rparr>)"
proof (intro conjI impI)
  have a: "\<not> (''p'' \<in> set [strip (lower kind), strip (lower kind)] \<and>
              ''t'' \<in> set [strip (lower kind), strip (lower kind)])"
  proof
    assume "''p'' \<in> set [strip (lower kind), strip (lower kind)] \<and>
            ''t'' \<in> set [strip (lower kind), strip (lower kind)]"
    then have "''p'' = strip (lower kind)" and "strip (lower kind) = ''t''" by simp_all
    then have "''p'' = ''t''" by (rule trans)
    then show False by simp
  qed
  have b: "\<not> (''p'' \<in> set [strip (lower kind), strip (lower kind)] \<and>
              ''x'' \<in> set [strip (lower kind), strip (lower kind)])"
  proof
    assume "''p'' \<in> set [strip (lower kind), strip (lower kind)] \<and>
            ''x'' \<in> set [strip (lower kind), strip (lower kind)]"
    then have "''p'' = strip (lower kind)" and "strip (lower kind) = ''x''" by simp_all
    then have "''p'' = ''x''" by (rule trans)
    then show False by simp
  qed
  show "setState X kind kind val1 val2 SI st =
     (Some (ComboNotImplemented (strip (lower kind)) (strip (lower kind))),
      st\<lparr> steamTable := table_of SI \<rparr>)"
    unfolding setState_def Let_def by (simp only: if_not_P [OF a] if_not_P [OF b])
qed (simp_all add: calculateProperties_def Let_def)

theorem duplicate_property_rejected_witness:
  "shortProp ''Pressure (p)'' = shortProp ''Pressure (p)'' \<and>
   calculateProperties sampleXSteam ''Pressure (p)'' ''Pressure (p)'' 1 2
       ''Pressure (p)'' ''Temperature (T)'' 1 200 sampleWindow =
     sampleWindow\<lparr> lblWarning := Text ''State 1: cannot specify the same property twice.'' \<rparr> \<and>
   shortProp ''Pressure (p)'' \<noteq> shortProp ''Temperature (T)'' \<and>
   calculateProperties sampleXSteam ''Pressure (p)'' ''Temperature (T)'' 1 200
       ''Quality (x)'' ''Quality (x)'' 1 2 sampleWindow =
     sampleWindow\<lparr> lblWarning := Text ''State 2: cannot specify the same property twice.'' \<rparr> \<and>
   setState sampleXSteam ''p'' ''p'' 1 2 True thermoState_init =
     (Some (ComboNotImplemented ''p'' ''p''), thermoState_init)"
  using duplicate_property_rejected [where X = sampleXSteam and ?c1.0 = "''Pressure (p)''"
      and ?c2.0 = "''Pressure (p)''" and ?v1.0 = 1 and ?v2.0 = 2
      and ?c3.0 = "''Pressure (p)''" and ?c4.0 = "''Temperature (T)''" and ?v3.0 = 1
      and ?v4.0 = 200 and w = sampleWindow and kind = "''p''" and ?val1.0 = 1
      and ?val2.0 = 2 and SI = True and st = thermoState_init]
    duplicate_property_rejected [where X = sampleXSteam and ?c1.0 = "''Pressure (p)''"
      and ?c2.0 = "''Temperature (T)''" and ?v1.0 = 1 and ?v2.0 = 200
      and ?c3.0 = "''Quality (x)''" and ?c4.0 = "''Quality (x)''" and ?v3.0 = 1
      and ?v4.0 = 2 and w = sampleWindow and kind = "''p''" and ?val1.0 = 1
      and ?val2.0 = 2 and SI = True and st = thermoState_init]
  by (simp add: shortProp_items normalise_codes thermoState_init_def)

subsection \<open>The delta label\<close>

text \<open>
  Claim C9. For two states with all seven properties assigned, \<^verbatim>\<open>makeDeltaLabel\<close>
  returns seven lines, for pressure, temperature, internal energy, enthalpy, entropy,
  specific volume and quality, each holding the value of state 2 minus the value of
  state 1 with the unit label of the window; the label does not depend on the region or
  on the steam table (the unit system) of either state: nothing is converted and no
  region is reported.
\<close>

theorem makeDeltaLabel_differences:
  assumes "st_p s1 = Some p1" and "st_t s1 = Some t1" and "st_u s1 = Some u1"
    and "st_h s1 = Some h1" and "st_s s1 = Some e1" and "st_v s1 = Some v1"
    and "st_x s1 = Some x1"
    and "st_p s2 = Some p2" and "st_t s2 = Some t2" and "st_u s2 = Some u2"
    and "st_h s2 = Some h2" and "st_s s2 = Some e2" and "st_v s2 = Some v2"
    and "st_x s2 = Some x2"
  shows "makeDeltaLabel w s1 s2 =
           Inr [DeltaLine ''Pressure'' (p2 - p1) (pUnits w),
                DeltaLine ''Temperature'' (t2 - t1) (tUnits w),
                DeltaLine ''Internal Energy'' (u2 - u1) (uUnits w),
                DeltaLine ''Enthalpy'' (h2 - h1) (hUnits w),
                DeltaLine ''Entropy'' (e2 - e1) (sUnits w),
                DeltaLine ''Specific Volume'' (v2 - v1) (vUnits w),
                DeltaLine ''Quality'' (x2 - x1) []] \<and>
         makeDeltaLabel w (s1\<lparr> region := r1, steamTable := us1 \<rparr>)
             (s2\<lparr> region := r2, steamTable := us2 \<rparr>) = makeDeltaLabel w s1 s2"
  using assms by (simp add: makeDeltaLabel_def minus_attr_def)

theorem makeDeltaLabel_differences_witness:
  "makeDeltaLabel sampleWindow
     (snd (setState sampleXSteam ''p'' ''t'' 1 100 True thermoState_init))
     (snd (setState sampleXSteam ''p'' ''t'' 1 200 True thermoState_init)) =
     Inr [DeltaLine ''Pressure'' 0 ''bar'',
          DeltaLine ''Temperature'' 100 ''C'',
          DeltaLine ''Internal Energy'' (- (1323 / 2)) ''kJ/kg'',
          DeltaLine ''Enthalpy'' (- (1491 / 2)) ''kJ/kg'',
          DeltaLine ''Entropy'' (- 2) ''kJ/kg*C'',
          DeltaLine ''Specific Volume'' 1 ''m^3/kg'',
          DeltaLine ''Quality'' (1 / 2) []]"
  using makeDeltaLabel_differences [where ?s1.0 = "snd (setState sampleXSteam ''p'' ''t'' 1 100 True thermoState_init)"
      and ?s2.0 = "snd (setState sampleXSteam ''p'' ''t'' 1 200 True thermoState_init)"
      and w = sampleWindow
      and ?p1.0 = 1 and ?t1.0 = 100 and ?u1.0 = "2923 / 2" and ?h1.0 = "3093 / 2"
      and ?e1.0 = 4 and ?v1.0 = 1 and ?x1.0 = "1 / 2"
      and ?p2.0 = 1 and ?t2.0 = 200 and ?u2.0 = 800 and ?h2.0 = 801
      and ?e2.0 = 2 and ?v2.0 = 2 and ?x2.0 = 1]
  by (simp add: sample_run_100 sample_run_200 sampleWindow_def)

end
